theory Spec2Isabelle
  imports
    Main
    "HOL-Library.Char_ord"
    "HOL-Library.List_Lexorder"
    "HOL-Library.Product_Lexorder"
begin

text \<open>
  A model of the data layer of the job board: the helper \<open>sqlForPartialUpdate\<close> that
  builds the SET clause of a partial update, and the operations of the \<open>Company\<close> and
  \<open>Job\<close> models, which build their statements, send them to the store and shape what
  comes back. Every operation takes the store and returns its result, a value or an
  error, with the store after it. The definitions come first, the properties after them.
\<close>

section \<open>JavaScript values, objects and errors\<close>

text \<open>
  The values that travel through the models: \<open>undefined\<close>, \<open>null\<close>, booleans, integral
  numbers, strings and plain objects. An object is the list of its own enumerable
  properties in the order \<^verbatim>\<open>Object.keys\<close> and \<^verbatim>\<open>Object.values\<close> enumerate them; a row
  returned by the store is such an object, one property per selected column.
\<close>

datatype jsval =
    JUndefined
  | JNull
  | JBool bool
  | JNum int
  | JStr string
  | JObj "(string \<times> jsval) list"

type_synonym jsobj = "(string \<times> jsval) list"

type_synonym row = jsobj

text \<open>
  \<^verbatim>\<open>expressError\<close> is imported by every model file; the two classes thrown there are
  \<^verbatim>\<open>BadRequestError\<close> and \<^verbatim>\<open>NotFoundError\<close>, each with its message. The specification
  calls the first one ValidationError where it reports bad input and ConflictError where
  it reports a duplicate key. A rejection of \<^verbatim>\<open>db.query\<close> itself propagates unchanged and
  is \<open>DatabaseError\<close> here.
\<close>

datatype error =
    BadRequestError string
  | NotFoundError string
  | DatabaseError

text \<open>Property read \<^verbatim>\<open>o.k\<close>: \<open>undefined\<close> when the object has no such property.\<close>

definition get_prop :: "jsobj \<Rightarrow> string \<Rightarrow> jsval" where
  "get_prop obj k = (case map_of obj k of None \<Rightarrow> JUndefined | Some v \<Rightarrow> v)"



text \<open>\<^verbatim>\<open>rows[0]\<close>: the first row as an object, \<open>undefined\<close> when there is none.\<close>

definition rows0 :: "row list \<Rightarrow> jsval" where
  "rows0 rs = (case rs of [] \<Rightarrow> JUndefined | r # _ \<Rightarrow> JObj r)"

subsection \<open>Numbers and values inside template literals\<close>

text \<open>The decimal text of a number, as the conversion of a number to a string gives it:
  the digits are produced from the last one and collected in front of those already
  there.\<close>

definition digit_char :: "nat \<Rightarrow> char" where
  "digit_char d = ''0123456789'' ! d"

function decimal_onto :: "nat \<Rightarrow> string \<Rightarrow> string" where
  "decimal_onto n later =
     (let digits = digit_char (n mod 10) # later
      in if n div 10 = 0 then digits else decimal_onto (n div 10) digits)"
  by pat_completeness auto
termination
  by (relation "measure fst") auto

declare decimal_onto.simps [simp del]

definition nat_text :: "nat \<Rightarrow> string" where
  "nat_text n = decimal_onto n []"

definition int_text :: "int \<Rightarrow> string" where
  "int_text i = (if 0 \<le> i then nat_text (nat i) else CHR ''-'' # nat_text (nat (- i)))"

text \<open>What \<^verbatim>\<open>${v}\<close> yields for a value \<open>v\<close> inside a template literal.\<close>

fun js_string :: "jsval \<Rightarrow> string" where
  "js_string JUndefined = ''undefined''"
| "js_string JNull = ''null''"
| "js_string (JBool b) = (if b then ''true'' else ''false'')"
| "js_string (JNum i) = int_text i"
| "js_string (JStr s) = s"
| "js_string (JObj obj) = ''[object Object]''"

text \<open>\<^verbatim>\<open>Array.prototype.join\<close> on an array of strings.\<close>

fun join :: "string \<Rightarrow> string list \<Rightarrow> string" where
  "join sep [] = []"
| "join sep [x] = x"
| "join sep (x # y # ys) = x @ sep @ join sep (y # ys)"

section \<open>helpers/sql: sqlForPartialUpdate\<close>

text \<open>
  \<^verbatim>\<open>jsToSql[colName] || colName\<close>: the entry of the translation object when it has one that
  is truthy (a non-empty string), the key itself otherwise.
\<close>

definition sqlColumn :: "(string \<rightharpoonup> string) \<Rightarrow> string \<Rightarrow> string" where
  "sqlColumn jsToSql colName =
     (case jsToSql colName of
        None \<Rightarrow> colName
      | Some c \<Rightarrow> if c = [] then colName else c)"

definition sqlForPartialUpdate ::
  "jsobj \<Rightarrow> (string \<rightharpoonup> string) \<Rightarrow> error + (string \<times> jsval list)" where
  \<open>sqlForPartialUpdate dataToUpdate jsToSql =
     (let keys = map fst dataToUpdate in
      if length keys = 0 then Inl (BadRequestError ''No data'')
      else
        let cols = map (\<lambda>(idx, colName).
                     ''"'' @ sqlColumn jsToSql colName @ ''"=$'' @ nat_text (idx + 1))
                   (enumerate 0 keys)
        in Inr (join '', '' cols, map snd dataToUpdate))\<close>

section \<open>The store behind db.query\<close>

text \<open>
  The models reach the relational store only through \<^verbatim>\<open>db.query(text, values)\<close>. The
  engine behind that call is not part of the sources. It is modelled here as two tables
  of rows (one property per column, \<open>JNull\<close> for SQL NULL) and the list of the statements
  issued so far. Each call passes, next to the statement text of the source, the
  engine's reading of that text as a value of type \<open>stmt\<close>; \<open>exec\<close> gives the reading its
  relational meaning. Only the statement shapes the modelled operations issue have a
  reading.
\<close>

record store =
  companies :: "row list"
  jobs :: "row list"
  issued :: "(string \<times> jsval list) list"

datatype table = Companies | Jobs

text \<open>\<open>JobsJoinCompanies\<close> reads
  \<^verbatim>\<open>FROM jobs AS j JOIN companies AS c ON j.company_handle = c.handle\<close>.\<close>

datatype source = Table table | JobsJoinCompanies

text \<open>
  The conditions of a WHERE clause, on a column and the number of a positional
  parameter: \<open>column = $k\<close>, \<open>column >= $k\<close>, \<open>column <= $k\<close>, \<open>column ILIKE $k\<close>, and
  \<open>column > 0\<close>. \<open>cond_text\<close> is the text of a condition as the searches write it.
\<close>

datatype cond =
    Eq string nat
  | Ge string nat
  | Le string nat
  | ILike string nat
  | Positive string

fun cond_text :: "cond \<Rightarrow> string" where
  "cond_text (Eq c k) = c @ '' = $'' @ nat_text k"
| "cond_text (Ge c k) = c @ '' >= $'' @ nat_text k"
| "cond_text (Le c k) = c @ '' <= $'' @ nat_text k"
| "cond_text (ILike c k) = c @ '' ILIKE $'' @ nat_text k"
| "cond_text (Positive c) = c @ '' > 0''"

text \<open>
  A select list or RETURNING list is a list of (column, property name) pairs:
  \<^verbatim>\<open>num_employees AS "numEmployees"\<close> is \<open>(''num_employees'', ''numEmployees'')\<close>.

  \<^item> \<open>Select src outs conds ord\<close>: SELECT outs FROM src WHERE conds (all of them)
    ORDER BY ord, where ord names a column of the select list.
  \<^item> \<open>InsertCompany cols outs\<close>: INSERT INTO companies (cols) VALUES ($1, ..., $n)
    RETURNING outs.
  \<^item> \<open>Update t cols key outs\<close>: UPDATE t SET cols!0 = $1, ..., cols!(n-1) = $n
    WHERE key = $(n+1) RETURNING outs.
  \<^item> \<open>Delete t key outs\<close>: DELETE FROM t WHERE key = $1 RETURNING outs.
\<close>

datatype stmt =
    Select source "(string \<times> string) list" "cond list" "string option"
  | InsertCompany "string list" "(string \<times> string) list"
  | Update table "string list" string "(string \<times> string) list"
  | Delete table string "(string \<times> string) list"

definition company_columns :: "string list" where
  "company_columns = [''handle'', ''name'', ''description'', ''num_employees'', ''logo_url'']"

definition job_columns :: "string list" where
  "job_columns = [''id'', ''title'', ''salary'', ''equity'', ''company_handle'']"

fun columns_of :: "table \<Rightarrow> string list" where
  "columns_of Companies = company_columns"
| "columns_of Jobs = job_columns"

fun table_rows :: "store \<Rightarrow> table \<Rightarrow> row list" where
  "table_rows st Companies = companies st"
| "table_rows st Jobs = jobs st"

fun set_table_rows :: "store \<Rightarrow> table \<Rightarrow> row list \<Rightarrow> store" where
  "set_table_rows st Companies rs = st\<lparr>companies := rs\<rparr>"
| "set_table_rows st Jobs rs = st\<lparr>jobs := rs\<rparr>"

text \<open>The value of a column in a row; a column the row does not carry reads as NULL.\<close>

definition col :: "row \<Rightarrow> string \<Rightarrow> jsval" where
  "col r c = (case map_of r c of None \<Rightarrow> JNull | Some v \<Rightarrow> v)"

text \<open>
  The columns of a row of the join of a job \<open>j\<close> and a company \<open>c\<close>: \<open>j.x\<close> is the column
  \<open>x\<close> of the job, \<open>c.x\<close> the column \<open>x\<close> of the company, and a plain name is the column of
  that name (the two tables have no column name in common).
\<close>

definition join_col :: "row \<Rightarrow> row \<Rightarrow> string \<Rightarrow> jsval" where
  "join_col j c x =
     (if take 2 x = ''j.'' then col j (drop 2 x)
      else if take 2 x = ''c.'' then col c (drop 2 x)
      else (case map_of j x of None \<Rightarrow> col c x | Some v \<Rightarrow> v))"

text \<open>The driver sends \<open>undefined\<close> as NULL.\<close>

definition pg_value :: "jsval \<Rightarrow> jsval" where
  "pg_value v = (if v = JUndefined then JNull else v)"

definition param :: "jsval list \<Rightarrow> nat \<Rightarrow> jsval" where
  "param ps k = (if 1 \<le> k \<and> k \<le> length ps then pg_value (ps ! (k - 1)) else JNull)"

text \<open>The rows of a source, each as the function from its column names to their values.\<close>

fun rows_of :: "store \<Rightarrow> source \<Rightarrow> (string \<Rightarrow> jsval) list" where
  "rows_of st (Table t) = map col (table_rows st t)"
| "rows_of st JobsJoinCompanies =
     concat (map (\<lambda>j.
       map (\<lambda>c. join_col j c)
         (filter (\<lambda>c. col j ''company_handle'' \<noteq> JNull
                      \<and> col c ''handle'' = col j ''company_handle'') (companies st)))
       (jobs st))"

definition project :: "(string \<times> string) list \<Rightarrow> (string \<Rightarrow> jsval) \<Rightarrow> row" where
  "project outs v = map (\<lambda>(c, a). (a, v c)) outs"

subsection \<open>Conditions\<close>

definition lower_char :: "char \<Rightarrow> char" where
  "lower_char c =
     (if CHR ''A'' \<le> c \<and> c \<le> CHR ''Z'' then char_of (of_char c + (32 :: nat)) else c)"

text \<open>LIKE: \<open>%\<close> matches any run of characters, \<open>_\<close> any one character, a backslash takes
  the next pattern character literally.\<close>

fun like :: "string \<Rightarrow> string \<Rightarrow> bool" where
  "like [] s = (s = [])"
| "like (p # ps) [] = (p = CHR ''%'' \<and> like ps [])"
| "like (p # ps) (c # s) =
     (if p = CHR ''%'' then like ps (c # s) \<or> like (p # ps) s
      else if p = CHR ''_'' then like ps s
      else if p = CHR 0x5C then (case ps of [] \<Rightarrow> False | q # qs \<Rightarrow> q = c \<and> like qs s)
      else p = c \<and> like ps s)"

definition ilike :: "string \<Rightarrow> string \<Rightarrow> bool" where
  "ilike pat s = like (map lower_char pat) (map lower_char s)"

text \<open>A numeric column comes back from the driver as its decimal text; it is above zero
  when it carries no sign and some digit other than 0.\<close>

definition decimal_positive :: "string \<Rightarrow> bool" where
  "decimal_positive d =
     (d \<noteq> [] \<and> hd d \<noteq> CHR ''-'' \<and> (\<exists>c \<in> set d. CHR ''1'' \<le> c \<and> c \<le> CHR ''9''))"

text \<open>Whether a condition holds of a row, given as the values of its columns. A
  comparison with NULL holds of no row.\<close>

fun holds :: "jsval list \<Rightarrow> (string \<Rightarrow> jsval) \<Rightarrow> cond \<Rightarrow> bool" where
  "holds ps v (Eq c k) = (v c \<noteq> JNull \<and> v c = param ps k)"
| "holds ps v (Ge c k) =
     (case v c of
        JNum a \<Rightarrow> (case param ps k of JNum b \<Rightarrow> b \<le> a | _ \<Rightarrow> False)
      | _ \<Rightarrow> False)"
| "holds ps v (Le c k) =
     (case v c of
        JNum a \<Rightarrow> (case param ps k of JNum b \<Rightarrow> a \<le> b | _ \<Rightarrow> False)
      | _ \<Rightarrow> False)"
| "holds ps v (ILike c k) =
     (case v c of
        JStr s \<Rightarrow> (case param ps k of JStr pat \<Rightarrow> ilike pat s | _ \<Rightarrow> False)
      | _ \<Rightarrow> False)"
| "holds ps v (Positive c) =
     (case v c of
        JNum a \<Rightarrow> 0 < a
      | JStr d \<Rightarrow> decimal_positive d
      | _ \<Rightarrow> False)"

subsection \<open>Ordering\<close>

text \<open>ORDER BY is only issued on text columns of the select list: ascending, NULL last,
  rows with equal keys in the order of the source (the sort is stable).\<close>

definition order_key :: "jsval \<Rightarrow> bool \<times> string" where
  "order_key v = (case v of JStr s \<Rightarrow> (False, s) | _ \<Rightarrow> (True, []))"

definition order_by :: "string option \<Rightarrow> row list \<Rightarrow> row list" where
  "order_by ord rs =
     (case ord of None \<Rightarrow> rs | Some a \<Rightarrow> sort_key (\<lambda>r. order_key (get_prop r a)) rs)"

subsection \<open>Execution\<close>

definition assign :: "(string \<times> jsval) list \<Rightarrow> row \<Rightarrow> row" where
  "assign sets r = map (\<lambda>(c, v). (c, case map_of sets c of None \<Rightarrow> v | Some v' \<Rightarrow> v')) r"

fun exec :: "stmt \<Rightarrow> jsval list \<Rightarrow> store \<Rightarrow> (error + row list) \<times> store" where
  "exec (Select src outs conds ord) ps st =
     (Inr (order_by ord
            (map (project outs)
               (filter (\<lambda>v. list_all (holds ps v) conds) (rows_of st src)))),
      st)"
| "exec (InsertCompany cols outs) ps st =
     (let given = zip cols (map pg_value ps);
          r = map (\<lambda>c. (c, case map_of given c of None \<Rightarrow> JNull | Some v \<Rightarrow> v))
                company_columns
      in if \<not> set cols \<subseteq> set company_columns
            \<or> col r ''handle'' = JNull
            \<or> list_ex (\<lambda>r'. col r' ''handle'' = col r ''handle'') (companies st)
         then (Inl DatabaseError, st)
         else (Inr [project outs (col r)], st\<lparr>companies := companies st @ [r]\<rparr>))"
| "exec (Update t cols key outs) ps st =
     (let n = length cols;
          sets = zip cols (map pg_value (take n ps));
          hit = (\<lambda>r. holds ps (col r) (Eq key (n + 1)))
      in if \<not> set cols \<subseteq> set (columns_of t) then (Inl DatabaseError, st)
         else (Inr (map (\<lambda>r. project outs (col (assign sets r)))
                      (filter hit (table_rows st t))),
               set_table_rows st t
                 (map (\<lambda>r. if hit r then assign sets r else r) (table_rows st t))))"
| "exec (Delete t key outs) ps st =
     (let hit = (\<lambda>r. holds ps (col r) (Eq key 1))
      in (Inr (map (\<lambda>r. project outs (col r)) (filter hit (table_rows st t))),
          set_table_rows st t (filter (\<lambda>r. \<not> hit r) (table_rows st t))))"

text \<open>\<^verbatim>\<open>await db.query(text, values)\<close>: the statement is recorded as issued, then executed.\<close>

definition db_query ::
  "store \<Rightarrow> string \<Rightarrow> jsval list \<Rightarrow> stmt \<Rightarrow> (error + row list) \<times> store" where
  "db_query st text values reading = exec reading values (st\<lparr>issued := issued st @ [(text, values)]\<rparr>)"

section \<open>models/company: the Company model\<close>

definition company_outs :: "(string \<times> string) list" where
  "company_outs =
     [(''handle'', ''handle''), (''name'', ''name''), (''description'', ''description''),
      (''num_employees'', ''numEmployees''), (''logo_url'', ''logoUrl'')]"

subsection \<open>Company.create\<close>

definition Company_create_check_sql :: string where
  \<open>Company_create_check_sql =
     ''SELECT handle\<newline>'' @
     ''           FROM companies\<newline>'' @
     ''           WHERE handle = $1''\<close>

definition Company_create_sql :: string where
  \<open>Company_create_sql =
     ''INSERT INTO companies\<newline>'' @
     ''           (handle, name, description, num_employees, logo_url)\<newline>'' @
     ''           VALUES ($1, $2, $3, $4, $5)\<newline>'' @
     ''           RETURNING handle, name, description, num_employees AS "numEmployees", logo_url AS "logoUrl"''\<close>

text \<open>The argument is the data object; the source destructures it into \<open>handle\<close>,
  \<open>name\<close>, \<open>description\<close>, \<open>numEmployees\<close> and \<open>logoUrl\<close>.\<close>

definition Company_create :: "store \<Rightarrow> jsobj \<Rightarrow> (error + jsval) \<times> store" where
  "Company_create st data =
     (case db_query st Company_create_check_sql [get_prop data ''handle'']
             (Select (Table Companies) [(''handle'', ''handle'')] [Eq ''handle'' 1] None) of
        (Inl e, st1) \<Rightarrow> (Inl e, st1)
      | (Inr duplicateCheck, st1) \<Rightarrow>
          if rows0 duplicateCheck \<noteq> JUndefined
          then (Inl (BadRequestError
                  (''Duplicate company: '' @ js_string (get_prop data ''handle''))), st1)
          else
            (case db_query st1 Company_create_sql
                    [get_prop data ''handle'', get_prop data ''name'',
                     get_prop data ''description'', get_prop data ''numEmployees'',
                     get_prop data ''logoUrl'']
                    (InsertCompany company_columns company_outs) of
               (Inl e, st2) \<Rightarrow> (Inl e, st2)
             | (Inr result, st2) \<Rightarrow> (Inr (rows0 result), st2)))"

subsection \<open>Company.findAll\<close>

text \<open>The search parameters: each is absent (\<open>None\<close>, \<open>undefined\<close> in the source) or
  present with a value of its type in the data model, a string for \<open>name\<close> and an
  integer for the two bounds.\<close>

record company_filter =
  name :: "string option"
  minEmployees :: "int option"
  maxEmployees :: "int option"

definition Company_findAll_mainQuery :: string where
  \<open>Company_findAll_mainQuery =
     ''SELECT handle,\<newline>'' @
     ''                            name,\<newline>'' @
     ''                            description,\<newline>'' @
     ''                            num_employees AS "numEmployees",\<newline>'' @
     ''                            logo_url AS "logoUrl"\<newline>'' @
     ''                      FROM companies''\<close>

definition Company_findAll_endQuery :: string where
  "Company_findAll_endQuery = '' ORDER BY name''"

text \<open>
  One filter step of \<open>findAll\<close>:
  \<^verbatim>\<open>queryValues.push(v); whereQuery.push(`... $${queryValues.length}`)\<close>,
  on the triple of \<open>queryValues\<close>, \<open>whereQuery\<close> and the reading of \<open>whereQuery\<close>.
\<close>

definition push_filter ::
  "jsval list \<times> string list \<times> cond list \<Rightarrow> jsval \<Rightarrow> string \<Rightarrow> (nat \<Rightarrow> cond)
     \<Rightarrow> jsval list \<times> string list \<times> cond list" where
  "push_filter acc v fragment reading =
     (case acc of (queryValues, whereQuery, conds) \<Rightarrow>
        let queryValues' = queryValues @ [v]
        in (queryValues',
            whereQuery @ [fragment @ nat_text (length queryValues')],
            conds @ [reading (length queryValues')]))"

text \<open>\<^verbatim>\<open>minEmployees > maxEmployees\<close>: false as soon as one side is \<open>undefined\<close>.\<close>

definition js_gt :: "int option \<Rightarrow> int option \<Rightarrow> bool" where
  "js_gt a b = (case a of None \<Rightarrow> False | Some x \<Rightarrow> (case b of None \<Rightarrow> False | Some y \<Rightarrow> x > y))"

text \<open>Lines 52 to 101 of \<open>findAll\<close>: the statement text, its values, and the reading of
  its WHERE clause. The two bounds are tested with \<^verbatim>\<open>!== undefined\<close>, the name with
  \<^verbatim>\<open>if (name)\<close>, which is false for the empty string as well.\<close>

definition Company_findAll_query ::
  "company_filter \<Rightarrow> error + (string \<times> jsval list \<times> cond list)" where
  "Company_findAll_query parameters =
     (let mainQuery = Company_findAll_mainQuery;
          endQuery = Company_findAll_endQuery
      in
      if js_gt (minEmployees parameters) (maxEmployees parameters)
      then Inl (BadRequestError ''Minimum employees cannot exceed maximum employees'')
      else
        let acc0 = ([], [], []);
            acc1 = (case minEmployees parameters of
                      None \<Rightarrow> acc0
                    | Some m \<Rightarrow> push_filter acc0 (JNum m) ''num_employees >= $''
                                 (Ge ''num_employees''));
            acc2 = (case maxEmployees parameters of
                      None \<Rightarrow> acc1
                    | Some m \<Rightarrow> push_filter acc1 (JNum m) ''num_employees <= $''
                                 (Le ''num_employees''));
            acc3 = (case name parameters of
                      None \<Rightarrow> acc2
                    | Some n \<Rightarrow>
                        if n \<noteq> []
                        then push_filter acc2 (JStr (''%'' @ n @ ''%'')) ''name ILIKE $''
                               (ILike ''name'')
                        else acc2)
        in case acc3 of (queryValues, whereQuery, conds) \<Rightarrow>
             Inr (if length whereQuery > 0
                  then mainQuery @ '' WHERE '' @ join '' AND '' whereQuery @ endQuery
                  else mainQuery @ endQuery,
                  queryValues, conds))"

definition Company_findAll :: "store \<Rightarrow> company_filter \<Rightarrow> (error + row list) \<times> store" where
  "Company_findAll st parameters =
     (case Company_findAll_query parameters of
        Inl e \<Rightarrow> (Inl e, st)
      | Inr (sqlQuery, queryValues, conds) \<Rightarrow>
          db_query st sqlQuery queryValues
            (Select (Table Companies) company_outs conds (Some ''name'')))"

subsection \<open>Company.get\<close>

definition Company_get_sql :: string where
  \<open>Company_get_sql =
     ''SELECT handle,\<newline>'' @
     ''                  name,\<newline>'' @
     ''                  description,\<newline>'' @
     ''                  num_employees AS "numEmployees",\<newline>'' @
     ''                  logo_url AS "logoUrl"\<newline>'' @
     ''           FROM companies\<newline>'' @
     ''           WHERE handle = $1''\<close>

definition Company_get :: "store \<Rightarrow> string \<Rightarrow> (error + jsval) \<times> store" where
  "Company_get st handle =
     (case db_query st Company_get_sql [JStr handle]
             (Select (Table Companies) company_outs [Eq ''handle'' 1] None) of
        (Inl e, st1) \<Rightarrow> (Inl e, st1)
      | (Inr companyRes, st1) \<Rightarrow>
          let company = rows0 companyRes
          in if company = JUndefined
             then (Inl (NotFoundError (''No company: '' @ handle)), st1)
             else (Inr company, st1))"

subsection \<open>Company.update\<close>

definition Company_jsToSql :: "string \<rightharpoonup> string" where
  "Company_jsToSql =
     map_of [(''numEmployees'', ''num_employees''), (''logoUrl'', ''logo_url'')]"

definition Company_update :: "store \<Rightarrow> string \<Rightarrow> jsobj \<Rightarrow> (error + jsval) \<times> store" where
  \<open>Company_update st handle data =
     (case sqlForPartialUpdate data Company_jsToSql of
        Inl e \<Rightarrow> (Inl e, st)
      | Inr (setCols, values) \<Rightarrow>
          let handleVarIdx = ''$'' @ nat_text (length values + 1);
              querySql =
                ''UPDATE companies \<newline>'' @
                ''                      SET '' @ setCols @ '' \<newline>'' @
                ''                      WHERE handle = '' @ handleVarIdx @ '' \<newline>'' @
                ''                      RETURNING handle, \<newline>'' @
                ''                                name, \<newline>'' @
                ''                                description, \<newline>'' @
                ''                                num_employees AS "numEmployees", \<newline>'' @
                ''                                logo_url AS "logoUrl"''
          in case db_query st querySql (values @ [JStr handle])
                    (Update Companies (map (sqlColumn Company_jsToSql \<circ> fst) data)
                       ''handle'' company_outs) of
               (Inl e, st1) \<Rightarrow> (Inl e, st1)
             | (Inr result, st1) \<Rightarrow>
                 let company = rows0 result
                 in if company = JUndefined
                    then (Inl (NotFoundError (''No company: '' @ handle)), st1)
                    else (Inr company, st1))\<close>

subsection \<open>Company.remove\<close>



section \<open>models/job: the Job model\<close>

text \<open>\<open>Job.create\<close> is left out: no property below is about it.\<close>

definition job_outs :: "(string \<times> string) list" where
  "job_outs =
     [(''id'', ''id''), (''title'', ''title''), (''salary'', ''salary''),
      (''equity'', ''equity''), (''company_handle'', ''companyHandle'')]"

definition job_listing_outs :: "(string \<times> string) list" where
  "job_listing_outs =
     [(''j.id'', ''id''), (''j.title'', ''title''), (''j.salary'', ''salary''),
      (''j.equity'', ''equity''), (''j.company_handle'', ''companyHandle''),
      (''c.name'', ''name'')]"

subsection \<open>Job.findAll\<close>

record job_filter =
  title :: "string option"
  minSalary :: "int option"
  hasEquity :: "bool option"

definition Job_findAll_mainQuery :: string where
  \<open>Job_findAll_mainQuery =
     ''SELECT j.id, \<newline>'' @
     ''                                j.title, \<newline>'' @
     ''                                j.salary, \<newline>'' @
     ''                                j.equity, \<newline>'' @
     ''                                j.company_handle AS "companyHandle", \<newline>'' @
     ''                                c.name\<newline>'' @
     ''                         FROM jobs AS j\<newline>'' @
     ''                         JOIN companies AS c ON j.company_handle = c.handle''\<close>

definition Job_findAll_endQuery :: string where
  "Job_findAll_endQuery = '' ORDER BY title''"

text \<open>Lines 34 to 77 of \<open>findAll\<close>. The equity predicate is added for
  \<^verbatim>\<open>hasEquity === true\<close> only and pushes no value; title and minimum salary are tested with
  \<^verbatim>\<open>!== undefined\<close>.\<close>

definition Job_findAll_query :: "job_filter \<Rightarrow> string \<times> jsval list \<times> cond list" where
  "Job_findAll_query parameters =
     (let mainQuery = Job_findAll_mainQuery;
          endQuery = Job_findAll_endQuery;
          acc0 = ([], [], []);
          acc1 = (if hasEquity parameters = Some True
                  then (case acc0 of (queryValues, whereQuery, conds) \<Rightarrow>
                          (queryValues, whereQuery @ [''equity > 0''],
                           conds @ [Positive ''equity'']))
                  else acc0);
          acc2 = (case title parameters of
                    None \<Rightarrow> acc1
                  | Some t \<Rightarrow> push_filter acc1 (JStr (''%'' @ t @ ''%'')) ''title ILIKE $''
                               (ILike ''title''));
          acc3 = (case minSalary parameters of
                    None \<Rightarrow> acc2
                  | Some m \<Rightarrow> push_filter acc2 (JNum m) ''salary >= $'' (Ge ''salary''))
      in case acc3 of (queryValues, whereQuery, conds) \<Rightarrow>
           (if length whereQuery > 0
            then mainQuery @ '' WHERE '' @ join '' AND '' whereQuery @ endQuery
            else mainQuery @ endQuery,
            queryValues, conds))"

definition Job_findAll :: "store \<Rightarrow> job_filter \<Rightarrow> (error + row list) \<times> store" where
  "Job_findAll st parameters =
     (case Job_findAll_query parameters of
        (sqlQuery, queryValues, conds) \<Rightarrow>
          db_query st sqlQuery queryValues
            (Select JobsJoinCompanies job_listing_outs conds (Some ''title'')))"

subsection \<open>Job.get\<close>



subsection \<open>Job.update\<close>

definition Job_update :: "store \<Rightarrow> int \<Rightarrow> jsobj \<Rightarrow> (error + jsval) \<times> store" where
  \<open>Job_update st id' data =
     (case sqlForPartialUpdate data Map.empty of
        Inl e \<Rightarrow> (Inl e, st)
      | Inr (setCols, values) \<Rightarrow>
          let idIdx = ''$'' @ nat_text (length values + 1);
              query =
                ''UPDATE jobs SET '' @ setCols @ '' WHERE id='' @ idIdx @
                '' RETURNING id, title, salary, equity, company_handle AS "companyHandle"''
          in case db_query st query (values @ [JNum id'])
                    (Update Jobs (map (sqlColumn Map.empty \<circ> fst) data) ''id'' job_outs) of
               (Inl e, st1) \<Rightarrow> (Inl e, st1)
             | (Inr results, st1) \<Rightarrow>
                 let job = rows0 results
                 in if job = JUndefined
                    then (Inl (NotFoundError
                            (''That job does not exist: job id '' @ int_text id')), st1)
                    else (Inr job, st1))\<close>

subsection \<open>Job.remove\<close>



section \<open>The keys of the store\<close>



section \<open>The search predicates in the words of the specification\<close>

text \<open>
  The specification describes each search as an ordered list of predicates, some of
  which carry a value. A predicate is written here as its text up to the placeholder,
  with its value when it carries one. \<open>number_predicates\<close> gives the value-bearing
  predicates the placeholders \<open>$1\<close>, \<open>$2\<close>, ... in their order, \<open>predicate_values\<close> is the
  parameter list, and \<open>where_clause\<close> joins the predicates with AND, or is empty for the
  unfiltered listing.
\<close>

fun number_predicates :: "nat \<Rightarrow> (string \<times> jsval option) list \<Rightarrow> string list" where
  "number_predicates k [] = []"
| "number_predicates k ((t, None) # ps) = t # number_predicates k ps"
| "number_predicates k ((t, Some v) # ps) =
     (t @ ''$'' @ nat_text (k + 1)) # number_predicates (k + 1) ps"

fun predicate_values :: "(string \<times> jsval option) list \<Rightarrow> jsval list" where
  "predicate_values [] = []"
| "predicate_values ((t, None) # ps) = predicate_values ps"
| "predicate_values ((t, Some v) # ps) = v # predicate_values ps"

definition where_clause :: "string list \<Rightarrow> string" where
  "where_clause fragments =
     (if fragments = [] then [] else '' WHERE '' @ join '' AND '' fragments)"

text \<open>Company search: \<open>numEmployees >= minEmployees\<close>, \<open>numEmployees <= maxEmployees\<close>,
  then the substring match on \<open>name\<close> with the value between wildcard markers; the
  last one for a name that is present and not the empty string.\<close>

definition spec_company_predicates :: "company_filter \<Rightarrow> (string \<times> jsval option) list" where
  "spec_company_predicates f =
     (case minEmployees f of None \<Rightarrow> [] | Some m \<Rightarrow> [(''num_employees >= '', Some (JNum m))])
     @ (case maxEmployees f of None \<Rightarrow> [] | Some m \<Rightarrow> [(''num_employees <= '', Some (JNum m))])
     @ (case name f of
          None \<Rightarrow> []
        | Some n \<Rightarrow> if n = [] then [] else [(''name ILIKE '', Some (JStr (''%'' @ n @ ''%'')))])"

text \<open>Job search: \<open>equity > 0\<close> only for \<open>hasEquity\<close> true, then the substring match on
  \<open>title\<close>, then \<open>salary >= minSalary\<close>.\<close>

definition spec_job_predicates :: "job_filter \<Rightarrow> (string \<times> jsval option) list" where
  "spec_job_predicates f =
     (if hasEquity f = Some True then [(''equity > 0'', None)] else [])
     @ (case title f of None \<Rightarrow> [] | Some t \<Rightarrow> [(''title ILIKE '', Some (JStr (''%'' @ t @ ''%'')))])
     @ (case minSalary f of None \<Rightarrow> [] | Some m \<Rightarrow> [(''salary >= '', Some (JNum m))])"

section \<open>An example store\<close>

text \<open>A store in the shape of the test fixtures: the company \<open>c1\<close> and its jobs \<open>J1\<close>,
  \<open>J2\<close> and \<open>J3\<close>, with no statement issued yet.\<close>

definition example_store :: store where
  "example_store =
     \<lparr>companies =
        [[(''handle'', JStr ''c1''), (''name'', JStr ''C1''), (''description'', JStr ''Desc1''),
          (''num_employees'', JNum 1), (''logo_url'', JNull)]],
      jobs =
        [[(''id'', JNum 1), (''title'', JStr ''J1''), (''salary'', JNum 12345),
          (''equity'', JStr ''0.1''), (''company_handle'', JStr ''c1'')],
         [(''id'', JNum 2), (''title'', JStr ''J2''), (''salary'', JNum 54321),
          (''equity'', JStr ''0.1''), (''company_handle'', JStr ''c1'')],
         [(''id'', JNum 3), (''title'', JStr ''J3''), (''salary'', JNum 13579),
          (''equity'', JStr ''0.0''), (''company_handle'', JStr ''c1'')]],
      issued = []\<rparr>"

section \<open>Properties of sqlForPartialUpdate\<close>

lemma nat_text_examples: "nat_text 0 = ''0''" "nat_text 10 = ''10''" "nat_text 4096 = ''4096''"
  by (simp_all add: nat_text_def decimal_onto.simps digit_char_def)

lemma nat_text_digit: "n < 10 \<Longrightarrow> nat_text n = [digit_char n]"
  by (simp add: nat_text_def decimal_onto.simps)

lemma nat_text_small:
  "nat_text 0 = ''0''" "nat_text (Suc 0) = ''1''" "nat_text 1 = ''1''"
  "nat_text 2 = ''2''" "nat_text 3 = ''3''" "nat_text 4 = ''4''"
  "nat_text (Suc (Suc 0)) = ''2''" "nat_text (Suc (Suc (Suc 0))) = ''3''"
  by (simp_all add: nat_text_digit digit_char_def)

text \<open>
  C3. With an empty update object \<open>sqlForPartialUpdate\<close> fails with the bad-request error
  \<open>No data\<close>, whatever the translation object; \<open>Company.update\<close> and \<open>Job.update\<close> fail
  with the same error and leave the store as it was, with no statement issued.
\<close>

theorem sqlForPartialUpdate_empty:
  "sqlForPartialUpdate [] jsToSql = Inl (BadRequestError ''No data'')
   \<and> Company_update st handle [] = (Inl (BadRequestError ''No data''), st)
   \<and> Job_update st id' [] = (Inl (BadRequestError ''No data''), st)"
  by (simp add: sqlForPartialUpdate_def Company_update_def Job_update_def)



text \<open>The reading that \<open>Company.update\<close> and \<open>Job.update\<close> hand to the store is the list
  of the columns of \<open>setCols\<close>, in its order.\<close>

lemma sqlForPartialUpdate_reading:
  assumes "sqlForPartialUpdate data M = Inr (setCols, vals)"
  shows \<open>setCols = join '', ''
           (map (\<lambda>(idx, c). ''"'' @ c @ ''"=$'' @ nat_text (idx + 1))
              (enumerate 0 (map (sqlColumn M \<circ> fst) data)))
         \<and> vals = map snd data\<close>
  using assms
  by (auto simp: sqlForPartialUpdate_def enumerate_eq_zip zip_map2 map_zip_map2 split: if_splits
      intro!: arg_cong [where f = "join '', ''"])

section \<open>Properties of the store\<close>

lemma rows_of_issued [simp]: "rows_of (st\<lparr>issued := x\<rparr>) src = rows_of st src"
proof (cases src)
  case (Table t)
  then show ?thesis by (cases t) simp_all
next
  case JobsJoinCompanies
  then show ?thesis by simp
qed

lemma table_rows_issued [simp]: "table_rows (st\<lparr>issued := x\<rparr>) t = table_rows st t"
  by (cases t) simp_all


lemma param_1 [simp]: "param (v # vs) (Suc 0) = pg_value v"
  by (simp add: param_def)


lemma pg_value_simps [simp]: "pg_value (JStr s) = JStr s" "pg_value (JNum i) = JNum i"
  by (simp_all add: pg_value_def)

lemma order_by_None [simp]: "order_by None rs = rs"
  by (simp add: order_by_def)

lemma set_order_by [simp]: "set (order_by ord rs) = set rs"
  by (cases ord) (simp_all add: order_by_def)

lemma length_order_by [simp]: "length (order_by ord rs) = length rs"
  by (cases ord) (simp_all add: order_by_def)

lemma sorted_order_by:
  "sorted (map (\<lambda>r. order_key (get_prop r a)) (order_by (Some a) rs))"
  by (simp add: order_by_def sorted_sort_key)

lemma rows0_Nil [simp]: "rows0 [] = JUndefined"
  by (simp add: rows0_def)

lemma rows0_Cons [simp]: "rows0 (r # rs) = JObj r"
  by (simp add: rows0_def)

lemma rows0_undefined: "rows0 rs = JUndefined \<longleftrightarrow> rs = []"
  by (cases rs) simp_all

lemma db_query_Select:
  "db_query st sql vs (Select src outs conds ord) =
     (Inr (order_by ord
            (map (project outs)
               (filter (\<lambda>v. list_all (holds vs v) conds) (rows_of st src)))),
      st\<lparr>issued := issued st @ [(sql, vs)]\<rparr>)"
  by (simp add: db_query_def)

text \<open>A SELECT by key returns the rows of the table whose key is the parameter.\<close>

lemma db_query_by_key:
  "db_query st sql [v] (Select (Table t) outs [Eq k 1] None) =
     (Inr (map (\<lambda>r. project outs (col r))
            (filter (\<lambda>r. col r k \<noteq> JNull \<and> col r k = pg_value v) (table_rows st t))),
      st\<lparr>issued := issued st @ [(sql, [v])]\<rparr>)"
  "db_query st sql [v] (Select (Table t) outs [Eq k (Suc 0)] None) =
     (Inr (map (\<lambda>r. project outs (col r))
            (filter (\<lambda>r. col r k \<noteq> JNull \<and> col r k = pg_value v) (table_rows st t))),
      st\<lparr>issued := issued st @ [(sql, [v])]\<rparr>)"
  by (simp_all add: db_query_Select filter_map comp_def)









lemma project_company_outs:
  "project company_outs (col c) =
     [(''handle'', col c ''handle''), (''name'', col c ''name''),
      (''description'', col c ''description''), (''numEmployees'', col c ''num_employees''),
      (''logoUrl'', col c ''logo_url'')]"
  by (simp add: project_def company_outs_def)

subsection \<open>Rows of the join\<close>

lemma project_job_listing:
  "project job_listing_outs (join_col j c) =
     [(''id'', col j ''id''), (''title'', col j ''title''), (''salary'', col j ''salary''),
      (''equity'', col j ''equity''), (''companyHandle'', col j ''company_handle''),
      (''name'', col c ''name'')]"
  by (simp add: project_def job_listing_outs_def join_col_def)

lemma rows_of_join_mem:
  assumes "v \<in> set (rows_of st JobsJoinCompanies)"
  shows "\<exists>j \<in> set (jobs st). \<exists>c \<in> set (companies st).
           v = join_col j c \<and> col c ''handle'' = col j ''company_handle''"
  using assms by auto

subsection \<open>The store against the tests of the repository\<close>

text \<open>
  The tests of \<open>Job.findAll\<close> run on the fixture with the jobs \<open>J1\<close>, \<open>J2\<close> and \<open>J3\<close> of
  the company \<open>c1\<close>. On the example store the model returns what they expect: all three
  jobs in the order of their titles without a filter; \<open>J2\<close> for the title \<open>J2\<close> and for the
  minimum salary 50000; \<open>J1\<close> and \<open>J2\<close> for \<open>hasEquity\<close> true; \<open>J1\<close> for \<open>hasEquity\<close> true
  with the title \<open>1\<close>.
\<close>

lemma example_job_searches:
  "fst (Job_findAll example_store \<lparr>title = None, minSalary = None, hasEquity = None\<rparr>) =
     Inr [[(''id'', JNum 1), (''title'', JStr ''J1''), (''salary'', JNum 12345),
           (''equity'', JStr ''0.1''), (''companyHandle'', JStr ''c1''), (''name'', JStr ''C1'')],
          [(''id'', JNum 2), (''title'', JStr ''J2''), (''salary'', JNum 54321),
           (''equity'', JStr ''0.1''), (''companyHandle'', JStr ''c1''), (''name'', JStr ''C1'')],
          [(''id'', JNum 3), (''title'', JStr ''J3''), (''salary'', JNum 13579),
           (''equity'', JStr ''0.0''), (''companyHandle'', JStr ''c1''), (''name'', JStr ''C1'')]]"
  "fst (Job_findAll example_store \<lparr>title = Some ''J2'', minSalary = None, hasEquity = None\<rparr>) =
     Inr [[(''id'', JNum 2), (''title'', JStr ''J2''), (''salary'', JNum 54321),
           (''equity'', JStr ''0.1''), (''companyHandle'', JStr ''c1''), (''name'', JStr ''C1'')]]"
  "fst (Job_findAll example_store \<lparr>title = None, minSalary = Some 50000, hasEquity = None\<rparr>) =
     Inr [[(''id'', JNum 2), (''title'', JStr ''J2''), (''salary'', JNum 54321),
           (''equity'', JStr ''0.1''), (''companyHandle'', JStr ''c1''), (''name'', JStr ''C1'')]]"
  "fst (Job_findAll example_store \<lparr>title = None, minSalary = None, hasEquity = Some True\<rparr>) =
     Inr [[(''id'', JNum 1), (''title'', JStr ''J1''), (''salary'', JNum 12345),
           (''equity'', JStr ''0.1''), (''companyHandle'', JStr ''c1''), (''name'', JStr ''C1'')],
          [(''id'', JNum 2), (''title'', JStr ''J2''), (''salary'', JNum 54321),
           (''equity'', JStr ''0.1''), (''companyHandle'', JStr ''c1''), (''name'', JStr ''C1'')]]"
  "fst (Job_findAll example_store \<lparr>title = Some ''1'', minSalary = None, hasEquity = Some True\<rparr>) =
     Inr [[(''id'', JNum 1), (''title'', JStr ''J1''), (''salary'', JNum 12345),
           (''equity'', JStr ''0.1''), (''companyHandle'', JStr ''c1''), (''name'', JStr ''C1'')]]"
  by code_simp+

section \<open>Properties of the searches\<close>

lemma bounds_pass:
  "(\<forall>a b. minEmployees f = Some a \<and> maxEmployees f = Some b \<longrightarrow> a \<le> b)
     \<Longrightarrow> \<not> js_gt (minEmployees f) (maxEmployees f)"
  by (auto simp: js_gt_def split: option.splits)

text \<open>The statement text and the values of each search are those of the predicate list
  of the specification, and the reading handed to the store has the text of the
  predicates.\<close>

lemma Company_findAll_query_spec:
  assumes "\<not> js_gt (minEmployees f) (maxEmployees f)"
  shows "\<exists>conds. Company_findAll_query f =
           Inr (Company_findAll_mainQuery
                  @ where_clause (number_predicates 0 (spec_company_predicates f))
                  @ Company_findAll_endQuery,
                predicate_values (spec_company_predicates f), conds)
         \<and> map cond_text conds = number_predicates 0 (spec_company_predicates f)"
  using assms
  by (cases "minEmployees f"; cases "maxEmployees f"; cases "name f")
     (simp_all add: Company_findAll_query_def push_filter_def spec_company_predicates_def
        where_clause_def nat_text_small)

lemma Job_findAll_query_spec:
  "\<exists>conds. Job_findAll_query f =
           (Job_findAll_mainQuery
              @ where_clause (number_predicates 0 (spec_job_predicates f))
              @ Job_findAll_endQuery,
            predicate_values (spec_job_predicates f), conds)
         \<and> map cond_text conds = number_predicates 0 (spec_job_predicates f)"
  by (cases "minSalary f"; cases "title f"; cases "hasEquity f = Some True")
     (simp_all add: Job_findAll_query_def push_filter_def spec_job_predicates_def
        where_clause_def nat_text_small)

lemma Company_findAll_sorted:
  assumes "Company_findAll st f = (Inr rows, st')"
  shows "sorted (map (\<lambda>r. order_key (get_prop r ''name'')) rows)"
proof (cases "Company_findAll_query f")
  case (Inl e)
  with assms show ?thesis by (simp add: Company_findAll_def)
next
  case (Inr q)
  obtain sql vs conds where q: "q = (sql, vs, conds)" by (cases q) auto
  from assms Inr q
  have "rows = order_by (Some ''name'')
          (map (project company_outs)
             (filter (\<lambda>v. list_all (holds vs v) conds) (rows_of st (Table Companies))))"
    by (simp add: Company_findAll_def db_query_Select)
  then show ?thesis
    using sorted_order_by [of "''name''"] by simp
qed

lemma Job_findAll_rows:
  "\<exists>sql vs conds. Job_findAll_query f = (sql, vs, conds) \<and> Job_findAll st f =
     (Inr (order_by (Some ''title'')
          (map (project job_listing_outs)
             (filter (\<lambda>v. list_all (holds vs v) conds) (rows_of st JobsJoinCompanies)))),
      st\<lparr>issued := issued st @ [(sql, vs)]\<rparr>)"
  by (cases "Job_findAll_query f") (simp add: Job_findAll_def db_query_Select)

lemma Job_findAll_sorted:
  assumes "Job_findAll st f = (Inr rows, st')"
  shows "sorted (map (\<lambda>r. order_key (get_prop r ''title'')) rows)"
proof -
  from Job_findAll_rows [of f st] assms obtain vs conds where
    "rows = order_by (Some ''title'')
          (map (project job_listing_outs)
             (filter (\<lambda>v. list_all (holds vs v) conds) (rows_of st JobsJoinCompanies)))"
    by auto
  then show ?thesis
    using sorted_order_by [of "''title''"] by simp
qed

text \<open>Every row of the job listing is made of a job and of the company its
  \<open>company_handle\<close> names.\<close>

lemma Job_findAll_row_shape:
  assumes "Job_findAll st f = (Inr rows, st')" and "r \<in> set rows"
  shows "\<exists>j \<in> set (jobs st). \<exists>c \<in> set (companies st).
           col c ''handle'' = col j ''company_handle''
         \<and> r = [(''id'', col j ''id''), (''title'', col j ''title''),
                (''salary'', col j ''salary''), (''equity'', col j ''equity''),
                (''companyHandle'', col j ''company_handle''), (''name'', col c ''name'')]"
proof -
  from Job_findAll_rows [of f st] assms(1) obtain vs conds where
    "rows = order_by (Some ''title'')
          (map (project job_listing_outs)
             (filter (\<lambda>v. list_all (holds vs v) conds) (rows_of st JobsJoinCompanies)))"
    by auto
  with assms(2) obtain v where v: "v \<in> set (rows_of st JobsJoinCompanies)"
    and r: "r = project job_listing_outs v"
    by auto
  from rows_of_join_mem [OF v] obtain j c where
    "j \<in> set (jobs st)" "c \<in> set (companies st)" "v = join_col j c"
    "col c ''handle'' = col j ''company_handle''"
    by blast
  with r show ?thesis
    by (auto simp: project_job_listing)
qed

lemma spec_company_predicates_shape:
  assumes "minEmployees f = None \<longleftrightarrow> minEmployees g = None"
    and "maxEmployees f = None \<longleftrightarrow> maxEmployees g = None"
    and "name f \<in> {None, Some []} \<longleftrightarrow> name g \<in> {None, Some []}"
  shows "number_predicates k (spec_company_predicates f)
           = number_predicates k (spec_company_predicates g)"
  using assms
  by (cases "minEmployees f"; cases "minEmployees g"; cases "maxEmployees f";
      cases "maxEmployees g"; cases "name f"; cases "name g")
     (auto simp: spec_company_predicates_def)

lemma spec_job_predicates_shape:
  assumes "hasEquity f = Some True \<longleftrightarrow> hasEquity g = Some True"
    and "title f = None \<longleftrightarrow> title g = None"
    and "minSalary f = None \<longleftrightarrow> minSalary g = None"
  shows "number_predicates k (spec_job_predicates f)
           = number_predicates k (spec_job_predicates g)"
  using assms
  by (cases "title f"; cases "title g"; cases "minSalary f"; cases "minSalary g")
     (auto simp: spec_job_predicates_def)

text \<open>
  C4. When \<open>minEmployees\<close> and \<open>maxEmployees\<close> are both present and the first exceeds the
  second, \<open>Company.findAll\<close> fails with the bad-request error and returns the store it was
  given: no statement has been issued.
\<close>

theorem Company_findAll_min_exceeds_max:
  assumes "minEmployees f = Some a" and "maxEmployees f = Some b" and "a > b"
  shows "Company_findAll st f =
           (Inl (BadRequestError ''Minimum employees cannot exceed maximum employees''), st)"
  using assms by (simp add: Company_findAll_def Company_findAll_query_def js_gt_def)

text \<open>The theorem at \<open>minEmployees = 5\<close>, \<open>maxEmployees = 3\<close> on the example store.\<close>

theorem Company_findAll_min_exceeds_max_witness:
  "Company_findAll example_store \<lparr>name = None, minEmployees = Some 5, maxEmployees = Some 3\<rparr>
     = (Inl (BadRequestError ''Minimum employees cannot exceed maximum employees''),
        example_store)
   \<and> issued example_store = []"
  using Company_findAll_min_exceeds_max
    [of "\<lparr>name = None, minEmployees = Some 5, maxEmployees = Some 3\<rparr>" 5 3 example_store]
  by (simp add: example_store_def)

text \<open>
  C5, as amended. For every company filter that passes the check of the two bounds,
  \<open>Company.findAll\<close> issues one statement: the main query, then the predicates of
  \<open>spec_company_predicates\<close> joined by AND behind WHERE (nothing when there is no
  predicate), then \<open>ORDER BY name\<close>; the values are those of the predicates, in the same
  order, and the placeholders number them from 1. The name predicate is there for a name
  that is present and not empty. The rows returned are in ascending order of \<open>name\<close>.
\<close>

theorem Company_findAll_predicates:
  assumes "\<forall>a b. minEmployees f = Some a \<and> maxEmployees f = Some b \<longrightarrow> a \<le> b"
  shows "\<exists>conds rows.
           Company_findAll_query f =
             Inr (Company_findAll_mainQuery
                    @ where_clause (number_predicates 0 (spec_company_predicates f))
                    @ '' ORDER BY name'',
                  predicate_values (spec_company_predicates f), conds)
         \<and> map cond_text conds = number_predicates 0 (spec_company_predicates f)
         \<and> Company_findAll st f =
             (Inr rows,
              st\<lparr>issued := issued st @
                 [(Company_findAll_mainQuery
                     @ where_clause (number_predicates 0 (spec_company_predicates f))
                     @ '' ORDER BY name'',
                   predicate_values (spec_company_predicates f))]\<rparr>)
         \<and> sorted (map (\<lambda>r. order_key (get_prop r ''name'')) rows)"
proof -
  from Company_findAll_query_spec [OF bounds_pass [OF assms]] obtain conds where
    q: "Company_findAll_query f =
          Inr (Company_findAll_mainQuery
                 @ where_clause (number_predicates 0 (spec_company_predicates f))
                 @ '' ORDER BY name'',
               predicate_values (spec_company_predicates f), conds)"
    and t: "map cond_text conds = number_predicates 0 (spec_company_predicates f)"
    by (auto simp: Company_findAll_endQuery_def)
  from q obtain rows where
    r: "Company_findAll st f =
          (Inr rows,
           st\<lparr>issued := issued st @
              [(Company_findAll_mainQuery
                  @ where_clause (number_predicates 0 (spec_company_predicates f))
                  @ '' ORDER BY name'',
                predicate_values (spec_company_predicates f))]\<rparr>)"
    by (simp add: Company_findAll_def db_query_Select)
  from Company_findAll_sorted [OF r] q t r show ?thesis by blast
qed

text \<open>The theorem at the filter \<open>{name: 'net', minEmployees: 1, maxEmployees: 3}\<close>.\<close>

theorem Company_findAll_predicates_witness:
  "\<exists>conds rows.
     Company_findAll_query \<lparr>name = Some ''net'', minEmployees = Some 1, maxEmployees = Some 3\<rparr> =
       Inr (Company_findAll_mainQuery
              @ '' WHERE num_employees >= $1 AND num_employees <= $2 AND name ILIKE $3 ORDER BY name'',
            [JNum 1, JNum 3, JStr ''%net%''], conds)
   \<and> map cond_text conds
       = [''num_employees >= $1'', ''num_employees <= $2'', ''name ILIKE $3'']
   \<and> Company_findAll example_store
        \<lparr>name = Some ''net'', minEmployees = Some 1, maxEmployees = Some 3\<rparr> =
       (Inr rows,
        example_store\<lparr>issued :=
          [(Company_findAll_mainQuery
              @ '' WHERE num_employees >= $1 AND num_employees <= $2 AND name ILIKE $3 ORDER BY name'',
            [JNum 1, JNum 3, JStr ''%net%''])]\<rparr>)
   \<and> sorted (map (\<lambda>r. order_key (get_prop r ''name'')) rows)"
  using Company_findAll_predicates
    [of "\<lparr>name = Some ''net'', minEmployees = Some 1, maxEmployees = Some 3\<rparr>"
        example_store]
  by (simp add: spec_company_predicates_def where_clause_def nat_text_small
        example_store_def)

text \<open>
  C5 as stated fails at the filter \<open>{name: ''}\<close>: the name is present, yet the statement
  is the unfiltered listing with no value, not the listing filtered by \<open>name ILIKE $1\<close>
  with the value \<open>%%\<close>.
\<close>

theorem Company_findAll_empty_name_counterexample:
  "name \<lparr>name = Some '''', minEmployees = None, maxEmployees = None\<rparr> \<noteq> None
   \<and> Company_findAll_query \<lparr>name = Some '''', minEmployees = None, maxEmployees = None\<rparr>
       = Inr (Company_findAll_mainQuery @ '' ORDER BY name'', [], [])
   \<and> Company_findAll_query \<lparr>name = Some '''', minEmployees = None, maxEmployees = None\<rparr>
       \<noteq> Inr (Company_findAll_mainQuery @ '' WHERE name ILIKE $1 ORDER BY name'',
              [JStr ''%%''], [ILike ''name'' 1])"
  by (simp add: Company_findAll_query_def js_gt_def Company_findAll_endQuery_def)

text \<open>
  C6. For every job filter, \<open>Job.findAll\<close> issues one statement: the main query with its
  join of jobs and companies, then the predicates of \<open>spec_job_predicates\<close> joined by AND
  behind WHERE (nothing when there is none), then \<open>ORDER BY title\<close>. \<open>equity > 0\<close> comes
  first and only for \<open>hasEquity\<close> true, and carries no value; the title and salary
  predicates follow, their values numbered from 1 in that order. The rows returned are
  in ascending order of \<open>title\<close>, and each is a job with the name of the company its
  \<open>company_handle\<close> names.
\<close>

theorem Job_findAll_predicates:
  "\<exists>conds rows.
     Job_findAll_query f =
       (Job_findAll_mainQuery
          @ where_clause (number_predicates 0 (spec_job_predicates f))
          @ '' ORDER BY title'',
        predicate_values (spec_job_predicates f), conds)
   \<and> map cond_text conds = number_predicates 0 (spec_job_predicates f)
   \<and> Job_findAll st f =
       (Inr rows,
        st\<lparr>issued := issued st @
           [(Job_findAll_mainQuery
               @ where_clause (number_predicates 0 (spec_job_predicates f))
               @ '' ORDER BY title'',
             predicate_values (spec_job_predicates f))]\<rparr>)
   \<and> sorted (map (\<lambda>r. order_key (get_prop r ''title'')) rows)
   \<and> (\<forall>r \<in> set rows. \<exists>j \<in> set (jobs st). \<exists>c \<in> set (companies st).
          col c ''handle'' = col j ''company_handle''
        \<and> get_prop r ''id'' = col j ''id''
        \<and> get_prop r ''name'' = col c ''name'')"
proof -
  from Job_findAll_query_spec [of f] obtain conds where
    q: "Job_findAll_query f =
          (Job_findAll_mainQuery
             @ where_clause (number_predicates 0 (spec_job_predicates f))
             @ '' ORDER BY title'',
           predicate_values (spec_job_predicates f), conds)"
    and t: "map cond_text conds = number_predicates 0 (spec_job_predicates f)"
    by (auto simp: Job_findAll_endQuery_def)
  from q obtain rows where
    r: "Job_findAll st f =
          (Inr rows,
           st\<lparr>issued := issued st @
              [(Job_findAll_mainQuery
                  @ where_clause (number_predicates 0 (spec_job_predicates f))
                  @ '' ORDER BY title'',
                predicate_values (spec_job_predicates f))]\<rparr>)"
    by (simp add: Job_findAll_def db_query_Select)
  have "\<exists>j \<in> set (jobs st). \<exists>c \<in> set (companies st).
          col c ''handle'' = col j ''company_handle''
        \<and> get_prop r' ''id'' = col j ''id''
        \<and> get_prop r' ''name'' = col c ''name''" if "r' \<in> set rows" for r'
  proof -
    from Job_findAll_row_shape [OF r that] obtain j c where
      "j \<in> set (jobs st)" "c \<in> set (companies st)"
      "col c ''handle'' = col j ''company_handle''"
      "r' = [(''id'', col j ''id''), (''title'', col j ''title''),
                (''salary'', col j ''salary''), (''equity'', col j ''equity''),
                (''companyHandle'', col j ''company_handle''), (''name'', col c ''name'')]"
      by blast
    then show ?thesis
      by (auto simp: get_prop_def)
  qed
  with Job_findAll_sorted [OF r] q t r show ?thesis by blast
qed

text \<open>The theorem at the filter \<open>{title: 'j', minSalary: 13000, hasEquity: true}\<close> on the
  example store.\<close>

theorem Job_findAll_predicates_witness:
  "\<exists>conds rows.
     Job_findAll_query \<lparr>title = Some ''j'', minSalary = Some 13000, hasEquity = Some True\<rparr> =
       (Job_findAll_mainQuery
          @ '' WHERE equity > 0 AND title ILIKE $1 AND salary >= $2 ORDER BY title'',
        [JStr ''%j%'', JNum 13000], conds)
   \<and> map cond_text conds = [''equity > 0'', ''title ILIKE $1'', ''salary >= $2'']
   \<and> Job_findAll example_store
        \<lparr>title = Some ''j'', minSalary = Some 13000, hasEquity = Some True\<rparr> =
       (Inr rows,
        example_store\<lparr>issued :=
          [(Job_findAll_mainQuery
              @ '' WHERE equity > 0 AND title ILIKE $1 AND salary >= $2 ORDER BY title'',
            [JStr ''%j%'', JNum 13000])]\<rparr>)
   \<and> sorted (map (\<lambda>r. order_key (get_prop r ''title'')) rows)
   \<and> list_all (\<lambda>r. get_prop r ''name'' = JStr ''C1'') rows"
proof -
  from Job_findAll_predicates
    [of "\<lparr>title = Some ''j'', minSalary = Some 13000, hasEquity = Some True\<rparr>" example_store]
  obtain conds rows where
    q: "Job_findAll_query \<lparr>title = Some ''j'', minSalary = Some 13000, hasEquity = Some True\<rparr> =
       (Job_findAll_mainQuery
          @ '' WHERE equity > 0 AND title ILIKE $1 AND salary >= $2 ORDER BY title'',
        [JStr ''%j%'', JNum 13000], conds)"
    and t: "map cond_text conds = [''equity > 0'', ''title ILIKE $1'', ''salary >= $2'']"
    and r: "Job_findAll example_store
        \<lparr>title = Some ''j'', minSalary = Some 13000, hasEquity = Some True\<rparr> =
       (Inr rows,
        example_store\<lparr>issued :=
          [(Job_findAll_mainQuery
              @ '' WHERE equity > 0 AND title ILIKE $1 AND salary >= $2 ORDER BY title'',
            [JStr ''%j%'', JNum 13000])]\<rparr>)"
    and s: "sorted (map (\<lambda>r. order_key (get_prop r ''title'')) rows)"
    and n: "\<forall>r \<in> set rows. \<exists>j \<in> set (jobs example_store). \<exists>c \<in> set (companies example_store).
          col c ''handle'' = col j ''company_handle''
        \<and> get_prop r ''id'' = col j ''id''
        \<and> get_prop r ''name'' = col c ''name''"
    by (auto simp: spec_job_predicates_def where_clause_def nat_text_small
          example_store_def)
  from n have a: "list_all (\<lambda>r. get_prop r ''name'' = JStr ''C1'') rows"
    by (auto simp: list_all_iff example_store_def col_def)
  show ?thesis
    by (rule exI [of _ conds], rule exI [of _ rows]) (intro conjI q t r s a)
qed

text \<open>
  C10 as stated fails for the job search: the filters \<open>{hasEquity: true}\<close> and
  \<open>{hasEquity: false}\<close> have the same fields present and differ only in a value, and
  their statement texts differ.
\<close>

theorem Job_findAll_text_depends_on_hasEquity:
  "(title \<lparr>title = None, minSalary = None, hasEquity = Some True\<rparr> = None
      \<longleftrightarrow> title \<lparr>title = None, minSalary = None, hasEquity = Some False\<rparr> = None)
   \<and> (minSalary \<lparr>title = None, minSalary = None, hasEquity = Some True\<rparr> = None
      \<longleftrightarrow> minSalary \<lparr>title = None, minSalary = None, hasEquity = Some False\<rparr> = None)
   \<and> (hasEquity \<lparr>title = None, minSalary = None, hasEquity = Some True\<rparr> = None
      \<longleftrightarrow> hasEquity \<lparr>title = None, minSalary = None, hasEquity = Some False\<rparr> = None)
   \<and> fst (Job_findAll_query \<lparr>title = None, minSalary = None, hasEquity = Some True\<rparr>)
       = Job_findAll_mainQuery @ '' WHERE equity > 0 ORDER BY title''
   \<and> fst (Job_findAll_query \<lparr>title = None, minSalary = None, hasEquity = Some False\<rparr>)
       = Job_findAll_mainQuery @ '' ORDER BY title''
   \<and> fst (Job_findAll_query \<lparr>title = None, minSalary = None, hasEquity = Some True\<rparr>)
       \<noteq> fst (Job_findAll_query \<lparr>title = None, minSalary = None, hasEquity = Some False\<rparr>)"
  by (simp add: Job_findAll_query_def Job_findAll_endQuery_def)

text \<open>
  C10, as amended. Two company filters that pass the check of the bounds and agree on
  whether \<open>minEmployees\<close> is present, whether \<open>maxEmployees\<close> is present and whether
  \<open>name\<close> is present and not empty give the same statement text; two job filters that
  agree on whether \<open>hasEquity\<close> is true, whether \<open>title\<close> is present and whether
  \<open>minSalary\<close> is present give the same statement text. The values of \<open>minEmployees\<close>,
  \<open>maxEmployees\<close>, \<open>name\<close>, \<open>title\<close> and \<open>minSalary\<close> reach the parameter list only.
\<close>

theorem findAll_text_independent_of_values:
  assumes "\<forall>a b. minEmployees f = Some a \<and> maxEmployees f = Some b \<longrightarrow> a \<le> b"
    and "\<forall>a b. minEmployees g = Some a \<and> maxEmployees g = Some b \<longrightarrow> a \<le> b"
    and "minEmployees f = None \<longleftrightarrow> minEmployees g = None"
    and "maxEmployees f = None \<longleftrightarrow> maxEmployees g = None"
    and "name f \<in> {None, Some []} \<longleftrightarrow> name g \<in> {None, Some []}"
    and "hasEquity jf = Some True \<longleftrightarrow> hasEquity jg = Some True"
    and "title jf = None \<longleftrightarrow> title jg = None"
    and "minSalary jf = None \<longleftrightarrow> minSalary jg = None"
  shows "(\<exists>sql vf cf vg cg.
            Company_findAll_query f = Inr (sql, vf, cf)
          \<and> Company_findAll_query g = Inr (sql, vg, cg))
       \<and> fst (Job_findAll_query jf) = fst (Job_findAll_query jg)"
proof -
  from Company_findAll_query_spec [OF bounds_pass [OF assms(1)]]
    Company_findAll_query_spec [OF bounds_pass [OF assms(2)]]
    spec_company_predicates_shape [OF assms(3,4,5), of 0]
  have "\<exists>sql vf cf vg cg.
            Company_findAll_query f = Inr (sql, vf, cf)
          \<and> Company_findAll_query g = Inr (sql, vg, cg)"
    by auto
  moreover
  from Job_findAll_query_spec [of jf] Job_findAll_query_spec [of jg]
    spec_job_predicates_shape [OF assms(6,7,8), of 0]
  have "fst (Job_findAll_query jf) = fst (Job_findAll_query jg)"
    by auto
  ultimately show ?thesis by blast
qed

text \<open>The theorem at two company filters and two job filters that differ in every
  value: the texts agree, the parameter lists differ.\<close>

theorem findAll_text_independent_of_values_witness:
  "(\<exists>sql vf cf vg cg.
      Company_findAll_query \<lparr>name = Some ''net'', minEmployees = Some 1, maxEmployees = None\<rparr>
        = Inr (sql, vf, cf)
    \<and> Company_findAll_query \<lparr>name = Some ''c1'', minEmployees = Some 50, maxEmployees = None\<rparr>
        = Inr (sql, vg, cg)
    \<and> vf \<noteq> vg)
   \<and> fst (Job_findAll_query \<lparr>title = Some ''J1'', minSalary = Some 10, hasEquity = Some True\<rparr>)
     = fst (Job_findAll_query \<lparr>title = Some ''eng'', minSalary = Some 99, hasEquity = Some True\<rparr>)"
proof -
  let ?f = "\<lparr>name = Some ''net'', minEmployees = Some 1, maxEmployees = None\<rparr>"
  let ?g = "\<lparr>name = Some ''c1'', minEmployees = Some 50, maxEmployees = None\<rparr>"
  let ?jf = "\<lparr>title = Some ''J1'', minSalary = Some 10, hasEquity = Some True\<rparr>"
  let ?jg = "\<lparr>title = Some ''eng'', minSalary = Some 99, hasEquity = Some True\<rparr>"
  have "(\<exists>sql vf cf vg cg.
            Company_findAll_query ?f = Inr (sql, vf, cf)
          \<and> Company_findAll_query ?g = Inr (sql, vg, cg))
       \<and> fst (Job_findAll_query ?jf) = fst (Job_findAll_query ?jg)"
    by (rule findAll_text_independent_of_values) simp_all
  moreover have "fst (snd (projr (Company_findAll_query ?f)))
                   \<noteq> fst (snd (projr (Company_findAll_query ?g)))"
    by (simp add: Company_findAll_query_def js_gt_def push_filter_def)
  ultimately show ?thesis by auto
qed

section \<open>Properties of the operations by key\<close>











lemma Company_create_duplicate_aux:
  assumes "r \<in> set (companies st)" and "col r ''handle'' = JStr h"
    and "get_prop data ''handle'' = JStr h"
  shows "Company_create st data =
           (Inl (BadRequestError (''Duplicate company: '' @ h)),
            st\<lparr>issued := issued st @ [(Company_create_check_sql, [JStr h])]\<rparr>)"
proof -
  let ?hits = "filter (\<lambda>r. col r ''handle'' \<noteq> JNull \<and> col r ''handle'' = JStr h)
                 (companies st)"
  have "r \<in> set ?hits"
    using assms(1,2) by simp
  then have "?hits \<noteq> []"
    by (metis empty_iff empty_set)
  then have "rows0 (map (\<lambda>r. project [(''handle'', ''handle'')] (col r)) ?hits) \<noteq> JUndefined"
    by (simp add: rows0_undefined)
  then show ?thesis
    using assms(3) by (simp add: Company_create_def db_query_by_key)
qed

text \<open>
  C7. When a company with the handle of the data object is already in the store,
  \<open>Company.create\<close> fails with the bad-request error \<open>Duplicate company: h\<close> (the error the
  code throws for a duplicate key); the rows of both tables are what they were, and the
  only statement issued is the SELECT that looks for the handle: no INSERT.
\<close>

theorem Company_create_duplicate:
  assumes "r \<in> set (companies st)" and "col r ''handle'' = JStr h"
    and "get_prop data ''handle'' = JStr h"
  shows "\<exists>st'. Company_create st data
                  = (Inl (BadRequestError (''Duplicate company: '' @ h)), st')
         \<and> companies st' = companies st
         \<and> jobs st' = jobs st
         \<and> issued st' = issued st @ [(Company_create_check_sql, [JStr h])]"
  using Company_create_duplicate_aux [OF assms] by simp

text \<open>The theorem on the example store, creating a second company \<open>c1\<close>.\<close>

theorem Company_create_duplicate_witness:
  "\<exists>st'. Company_create example_store
            [(''handle'', JStr ''c1''), (''name'', JStr ''Other''), (''numEmployees'', JNum 7)]
          = (Inl (BadRequestError ''Duplicate company: c1''), st')
       \<and> companies st' = companies example_store
       \<and> jobs st' = jobs example_store
       \<and> issued st' = [(Company_create_check_sql, [JStr ''c1''])]"
  using Company_create_duplicate
    [of "[(''handle'', JStr ''c1''), (''name'', JStr ''C1''), (''description'', JStr ''Desc1''),
          (''num_employees'', JNum 1), (''logo_url'', JNull)]"
        example_store "''c1''"
        "[(''handle'', JStr ''c1''), (''name'', JStr ''Other''), (''numEmployees'', JNum 7)]"]
  by (simp add: col_def get_prop_def example_store_def)

text \<open>Whatever the store and the handle, a successful \<open>Company.get\<close> returns an object
  with the five company fields and no other property.\<close>

lemma Company_get_fields:
  assumes "Company_get st h = (Inr v, st')"
  shows "\<exists>r. v = JObj r
             \<and> map fst r = [''handle'', ''name'', ''description'', ''numEmployees'', ''logoUrl'']
             \<and> get_prop r ''jobs'' = JUndefined"
proof (cases "filter (\<lambda>r. col r ''handle'' \<noteq> JNull \<and> col r ''handle'' = JStr h) (companies st)")
  case Nil
  with assms show ?thesis
    by (simp add: Company_get_def db_query_by_key)
next
  case (Cons c cs)
  with assms have "v = JObj (project company_outs (col c))"
    by (auto simp: Company_get_def db_query_by_key)
  then show ?thesis
    by (simp add: project_company_outs get_prop_def)
qed

text \<open>
  C1 fails on the code: after \<open>Company.create\<close> of
  \<open>{handle: 'c9', name: 'Nine', numEmployees: 9}\<close> on an empty store, \<open>Company.get('c9')\<close>
  succeeds with the five company fields and nothing else. The result has no \<open>jobs\<close>
  property, which the doc comment of \<open>get\<close> promises as a list of the company's jobs.
\<close>

theorem Company_get_after_create_has_no_jobs:
  "(case Company_create \<lparr>companies = [], jobs = [], issued = []\<rparr>
           [(''handle'', JStr ''c9''), (''name'', JStr ''Nine''), (''numEmployees'', JNum 9)] of
      (created, st) \<Rightarrow>
        created = Inr (JObj [(''handle'', JStr ''c9''), (''name'', JStr ''Nine''),
                             (''description'', JNull), (''numEmployees'', JNum 9),
                             (''logoUrl'', JNull)])
      \<and> fst (Company_get st ''c9'')
          = Inr (JObj [(''handle'', JStr ''c9''), (''name'', JStr ''Nine''),
                       (''description'', JNull), (''numEmployees'', JNum 9),
                       (''logoUrl'', JNull)])
      \<and> get_prop [(''handle'', JStr ''c9''), (''name'', JStr ''Nine''),
                   (''description'', JNull), (''numEmployees'', JNum 9),
                   (''logoUrl'', JNull)] ''jobs'' = JUndefined)"
  by (simp add: Company_create_def Company_get_def db_query_def get_prop_def company_columns_def
        company_outs_def project_def col_def pg_value_def param_def)





end
